theory Spec2Isabelle
  imports Complex_Main
begin

section \<open>Values, errors and the state of a FLAC track\<close>

text \<open>
  The embedding follows \<^verbatim>\<open>src/chemz/base.py\<close> (class \<^verbatim>\<open>Track\<close>) and
  \<^verbatim>\<open>src/chemz/flac.py\<close> (class \<^verbatim>\<open>FLACTrack\<close>). A method that mutates the track, the
  tag store or the file system takes the state and returns the new state together with
  either the returned value or the exception raised; the state after an exception is the
  state the exception leaves behind.
\<close>

text \<open>A \<^verbatim>\<open>pathlib.Path\<close>, as the list of its components.\<close>

type_synonym path = "string list"

text \<open>
  A decoded \<^verbatim>\<open>PIL.Image.Image\<close>: the accessors the source reads (\<^verbatim>\<open>width\<close>,
  \<^verbatim>\<open>height\<close>, \<^verbatim>\<open>format\<close>) and the Exif table it writes (tag number and value, in
  insertion order).
\<close>

record image =
  width :: nat
  height :: nat
  format :: string
  exif :: "(nat \<times> string) list"

text \<open>
  Python values held by the slots of a track and by the tag store. \<open>PFlac\<close> is the
  reference to the \<^verbatim>\<open>mutagen.flac.FLAC\<close> object that \<^verbatim>\<open>__init__\<close> creates; \<open>PSetter k\<close> is
  the closure \<^verbatim>\<open>__getattr__\<close> synthesises for the native key \<open>k\<close>; \<open>PTuple\<close> is a tuple, as
  yielded by \<^verbatim>\<open>dict.items()\<close>.
\<close>

datatype pyval =
    PNone
  | PStr string
  | PInt int
  | PPath path
  | PImage image
  | PFlac
  | PSetter string
  | PTuple "pyval list"

datatype error =
    AttributeError string
  | WrongFLACAttributeError
  | WrongPictureFormatError string
  | NoCoverFoundError string
  | KeyError string
  | IndexError
  | FileNotFoundError
  | MutagenError
  | UnidentifiedImageError
  | ZeroDivisionError
  | ValueError

text \<open>
  File contents. The image codec is an external collaborator: bytes that decode to an
  image are represented by that image, any other bytes are raw.
\<close>

datatype content = Encoded image | Raw "nat list"

text \<open>A \<^verbatim>\<open>mutagen.flac.Picture\<close>: the two fields the source assigns and reads.\<close>

record picture =
  data :: content
  mime :: string

text \<open>
  The tag store (\<^verbatim>\<open>mutagen.flac.FLAC\<close>): native key to the list of its values, and the
  ordered picture list.
\<close>

record flac_data =
  tags :: "string \<rightharpoonup> pyval list"
  pictures :: "picture list"

text \<open>
  The state: the slots of the \<^verbatim>\<open>FLACTrack\<close> instance (an unset slot is \<open>None\<close>), the
  \<^verbatim>\<open>FLAC\<close> object and the file it was opened from, the ordinary files on disk and the
  persisted tag stores of the audio files on disk.
\<close>

record state =
  slots :: "string \<rightharpoonup> pyval"
  flac :: flac_data
  flac_filename :: path
  files :: "path \<rightharpoonup> content"
  audio :: "path \<rightharpoonup> flac_data"

type_synonym 'a outcome = "(error + 'a) \<times> state"

section \<open>The schema and the attribute map\<close>

text \<open>\<^verbatim>\<open>Track.__slots__\<close> (base.py, lines 10 to 39).\<close>

definition Track_slots :: "string list" where
  "Track_slots =
    [''album'', ''albumartist'', ''artist'', ''bpm'', ''comment'', ''composer'',
     ''conductor'', ''contentgroup'', ''copyright'', ''cover'', ''disc'', ''encodedby'',
     ''genre'', ''initialkey'', ''isrc'', ''lyricist'', ''lyrics'', ''origartist'',
     ''path'', ''publisher'', ''remixedby'', ''subtitle'', ''title'', ''totaldiscs'',
     ''totaltracks'', ''track'', ''www'', ''year'']"

text \<open>\<^verbatim>\<open>FLACTrack.__slots__ = Track.__slots__ + ("flac",)\<close>.\<close>

definition FLACTrack_slots :: "string list" where
  "FLACTrack_slots = Track_slots @ [''flac'']"

text \<open>\<^verbatim>\<open>FLACTrack.attrs\<close> (flac.py, lines 22 to 49), in declaration order.\<close>

definition attrs :: "(string \<times> string) list" where
  "attrs =
    [(''album'', ''album''), (''albumartist'', ''albumartist''), (''artist'', ''artist''),
     (''bpm'', ''bpm''), (''comment'', ''comment''), (''composer'', ''composer''),
     (''conductor'', ''conductor''), (''contentgroup'', ''contentgroup''),
     (''copyright'', ''copyright''), (''disc'', ''discnumber''),
     (''encodedby'', ''encodedby''), (''genre'', ''genre''),
     (''initialkey'', ''initialkey''), (''isrc'', ''isrc''), (''lyricist'', ''lyricist''),
     (''lyrics'', ''lyrics''), (''origartist'', ''origartist''),
     (''publisher'', ''organization''), (''remixedby'', ''remixedby''),
     (''subtitle'', ''subtitle''), (''title'', ''title''), (''totaldiscs'', ''disctotal''),
     (''totaltracks'', ''tracktotal''), (''track'', ''tracknumber''),
     (''www'', ''location''), (''year'', ''date'')]"

text \<open>The canonical attribute names: the keys of the attribute map.\<close>

definition canonical :: "string list" where
  "canonical = map fst attrs"

text \<open>The adapter-internal fields.\<close>

definition internal_fields :: "string list" where
  "internal_fields = [''path'', ''cover'', ''flac'']"

section \<open>Attribute access\<close>

definition quoted :: "string \<Rightarrow> string" where
  "quoted name = [CHR 0x27] @ name @ [CHR 0x27]"

text \<open>
  The message of \<^verbatim>\<open>FLACTrack.__getattr__\<close> (flac.py, lines 171 to 173), also what reading
  an unset slot ends in.
\<close>

definition no_attribute :: "string \<Rightarrow> error" where
  "no_attribute name =
     AttributeError (quoted ''FLACTrack'' @ '' object has no attribute '' @ quoted name)"

text \<open>
  \<^verbatim>\<open>FLACTrack.__setattr__\<close> (flac.py, lines 153 to 157). \<^verbatim>\<open>object.__setattr__\<close> stores into
  a slot; the class has no instance dictionary, so a name that is no slot cannot be stored.
\<close>

definition setattr :: "state \<Rightarrow> string \<Rightarrow> pyval \<Rightarrow> unit outcome" where
  "setattr s name v =
     (if name \<in> set FLACTrack_slots \<or> name \<in> set (map fst attrs) then
        (if name \<in> set FLACTrack_slots
         then (Inr (), s\<lparr>slots := (slots s)(name \<mapsto> v)\<rparr>)
         else (Inl (no_attribute name), s))
      else (Inl (AttributeError (''Cannot set unknown attribute '' @ quoted name)), s))"

text \<open>
  \<^verbatim>\<open>FLACTrack.__getattr__\<close> (flac.py, lines 159 to 173), called when normal lookup fails:
  a name \<^verbatim>\<open>set_<attr>\<close> with \<^verbatim>\<open><attr>\<close> in the attribute map yields a setter.
\<close>

definition getattr_hook :: "string \<Rightarrow> error + pyval" where
  "getattr_hook name =
     (if take 4 name = ''set_'' then
        (case map_of attrs (drop 4 name) of
           Some flac_key \<Rightarrow> if flac_key \<noteq> [] then Inr (PSetter flac_key) else Inl (no_attribute name)
         | None \<Rightarrow> Inl (no_attribute name))
      else Inl (no_attribute name))"

text \<open>
  \<^verbatim>\<open>hasattr(self, name)\<close>. A slot name resolves when the slot holds a value. Any other
  name resolves when the class defines it (a method or class attribute; \<open>cls\<close> lists these
  names, those inherited from \<^verbatim>\<open>object\<close> included), and otherwise through
  \<^verbatim>\<open>__getattr__\<close>.
\<close>

definition hasattr :: "string list \<Rightarrow> state \<Rightarrow> string \<Rightarrow> bool" where
  "hasattr cls s name =
     (if name \<in> set FLACTrack_slots
      then slots s name \<noteq> None \<or> \<not> isl (getattr_hook name)
      else name \<in> set cls \<or> \<not> isl (getattr_hook name))"


text \<open>\<^verbatim>\<open>self.flac\<close> and \<^verbatim>\<open>self.path\<close>, for the methods that use them as tag store and path.\<close>

definition self_flac :: "state \<Rightarrow> error + flac_data" where
  "self_flac s =
     (case slots s ''flac'' of
        Some PFlac \<Rightarrow> Inr (flac s)
      | _ \<Rightarrow> Inl (no_attribute ''flac''))"

definition self_path :: "state \<Rightarrow> error + path" where
  "self_path s =
     (case slots s ''path'' of
        Some (PPath p) \<Rightarrow> Inr p
      | _ \<Rightarrow> Inl (no_attribute ''path''))"

text \<open>\<^verbatim>\<open>Track.import_from_dict\<close> (base.py, lines 89 to 103); the dict in iteration order.\<close>

fun import_from_dict :: "string list \<Rightarrow> state \<Rightarrow> (string \<times> pyval) list \<Rightarrow> unit outcome" where
  "import_from_dict cls s [] = (Inr (), s)"
| "import_from_dict cls s ((key, val) # rest) =
     (if hasattr cls s key then
        (case setattr s key val of
           (Inl e, s') \<Rightarrow> (Inl e, s')
         | (Inr _, s') \<Rightarrow> import_from_dict cls s' rest)
      else (Inl (AttributeError (''Attribute '' @ key @ '' not found in Track class'')), s))"

section \<open>Tag store operations\<close>

text \<open>\<^verbatim>\<open>self.flac.get(key, default)[0]\<close>.\<close>

definition flac_get_first :: "flac_data \<Rightarrow> string \<Rightarrow> pyval \<Rightarrow> error + pyval" where
  "flac_get_first f key d =
     (case tags f key of
        None \<Rightarrow> Inr d
      | Some [] \<Rightarrow> Inl IndexError
      | Some (v # _) \<Rightarrow> Inr v)"


text \<open>\<^verbatim>\<open>self.flac.pop(key)\<close> with no default.\<close>

definition flac_pop :: "flac_data \<Rightarrow> string \<Rightarrow> error + flac_data" where
  "flac_pop f key =
     (case tags f key of
        None \<Rightarrow> Inl (KeyError key)
      | Some _ \<Rightarrow> Inr (f\<lparr>tags := (tags f)(key := None)\<rparr>))"

text \<open>
  \<^verbatim>\<open>self.flac.save(target)\<close>: the audio file must be there to be rewritten; its tag
  blocks become the in-memory store.
\<close>

definition flac_save :: "state \<Rightarrow> path \<Rightarrow> unit outcome" where
  "flac_save s target =
     (case audio s target of
        None \<Rightarrow> (Inl MutagenError, s)
      | Some _ \<Rightarrow> (Inr (), s\<lparr>audio := (audio s)(target \<mapsto> flac s)\<rparr>))"

section \<open>read, save and delete_tag\<close>

text \<open>\<^verbatim>\<open>FLACTrack.read\<close> (flac.py, lines 63 to 65): the loop over \<^verbatim>\<open>attrs.items()\<close>.\<close>

fun read_loop :: "state \<Rightarrow> (string \<times> string) list \<Rightarrow> unit outcome" where
  "read_loop s [] = (Inr (), s)"
| "read_loop s ((key, val) # rest) =
     (case self_flac s of
        Inl e \<Rightarrow> (Inl e, s)
      | Inr f \<Rightarrow>
          (case flac_get_first f val PNone of
             Inl e \<Rightarrow> (Inl e, s)
           | Inr v \<Rightarrow>
               (case setattr s key v of
                  (Inl e, s') \<Rightarrow> (Inl e, s')
                | (Inr _, s') \<Rightarrow> read_loop s' rest)))"

definition read :: "state \<Rightarrow> unit outcome" where
  "read s = read_loop s attrs"



text \<open>
  \<^verbatim>\<open>attrs.items()\<close>: the view of (key, value) tuples that \<^verbatim>\<open>delete_tag\<close> tests its
  argument against.
\<close>

definition attrs_items :: "pyval list" where
  "attrs_items = map (\<lambda>(k, v). PTuple [PStr k, PStr v]) attrs"

text \<open>\<^verbatim>\<open>FLACTrack.delete_tag\<close> (flac.py, lines 75 to 79), for a \<^verbatim>\<open>str\<close> argument.\<close>

definition delete_tag :: "state \<Rightarrow> string \<Rightarrow> unit outcome" where
  "delete_tag s tag =
     (if PStr tag \<in> set attrs_items then
        (case self_flac s of
           Inl e \<Rightarrow> (Inl e, s)
         | Inr f \<Rightarrow>
             (case flac_pop f tag of
                Inl e \<Rightarrow> (Inl e, s)
              | Inr f' \<Rightarrow> (Inr (), s\<lparr>flac := f'\<rparr>)))
      else (Inl WrongFLACAttributeError, s))"

section \<open>Paths\<close>

text \<open>\<^verbatim>\<open>Path.name\<close>, \<^verbatim>\<open>Path.parent\<close> and the \<^verbatim>\<open>/\<close> operator of \<^verbatim>\<open>pathlib\<close>.\<close>

definition path_name :: "path \<Rightarrow> string" where
  "path_name p = (if p = [] then [] else last p)"

definition parent :: "path \<Rightarrow> path" where
  "parent p = butlast p"

definition joinpath :: "path \<Rightarrow> string \<Rightarrow> path" where
  "joinpath p name = p @ [name]"

text \<open>\<^verbatim>\<open>str.rfind\<close> for a single character: the last index of it, or \<open>-1\<close>.\<close>

definition rfind :: "char \<Rightarrow> string \<Rightarrow> int" where
  "rfind c xs =
     (if c \<in> set xs
      then int (length xs) - 1 - int (length (takeWhile (\<lambda>x. x \<noteq> c) (rev xs)))
      else - 1)"

text \<open>
  \<^verbatim>\<open>Path.suffix\<close>: the final component from its last dot on, when that dot is neither its
  first nor its last character.
\<close>

definition suffix :: "path \<Rightarrow> string" where
  "suffix p =
     (let name = path_name p; i = rfind (CHR ''.'') name
      in if 0 < i \<and> i < int (length name) - 1 then drop (nat i) name else [])"

section \<open>Cover operations\<close>

text \<open>\<^verbatim>\<open>Image.open(BytesIO(data))\<close>.\<close>

definition image_open :: "content \<Rightarrow> error + image" where
  "image_open c = (case c of Encoded img \<Rightarrow> Inr img | Raw _ \<Rightarrow> Inl UnidentifiedImageError)"

text \<open>\<^verbatim>\<open>FLACTrack.read_cover\<close> (flac.py, lines 84 to 88).\<close>

definition read_cover :: "state \<Rightarrow> image option outcome" where
  "read_cover s =
     (case self_flac s of
        Inl e \<Rightarrow> (Inl e, s)
      | Inr f \<Rightarrow>
          (if pictures f \<noteq> [] then
             (case image_open (data (hd (pictures f))) of
                Inl e \<Rightarrow> (Inl e, s)
              | Inr img \<Rightarrow>
                  (case setattr s ''cover'' (PImage img) of
                     (Inl e, s') \<Rightarrow> (Inl e, s')
                   | (Inr _, s') \<Rightarrow> (Inr (Some img), s')))
           else (Inr None, s)))"

text \<open>
  \<^verbatim>\<open>FLACTrack.remove_cover\<close> (flac.py, lines 149 to 151); \<^verbatim>\<open>save()\<close> with no argument
  writes to the file the store was opened from.
\<close>

definition remove_cover :: "state \<Rightarrow> unit outcome" where
  "remove_cover s =
     (case self_flac s of
        Inl e \<Rightarrow> (Inl e, s)
      | Inr f \<Rightarrow> flac_save (s\<lparr>flac := f\<lparr>pictures := []\<rparr>\<rparr>) (flac_filename s))"

definition supported_extensions_message :: string where
  "supported_extensions_message =
     ''Supported extensions are '' @ quoted ''jpg'' @ '', '' @ quoted ''jpeg'' @ '', '' @
     quoted ''png''"

text \<open>\<^verbatim>\<open>FLACTrack.add_cover\<close> (flac.py, lines 90 to 102).\<close>

definition add_cover :: "state \<Rightarrow> path \<Rightarrow> unit outcome" where
  "add_cover s p =
     (if suffix p \<in> set [''.jpg'', ''.jpeg'', ''.png''] then
        (case files s p of
           None \<Rightarrow> (Inl FileNotFoundError, s)
         | Some bytes \<Rightarrow>
             (let cover = \<lparr>data = bytes,
                           mime = (if suffix p = ''.png'' then ''image/png'' else ''image/jpeg'')\<rparr>
              in case remove_cover s of
                   (Inl e, s') \<Rightarrow> (Inl e, s')
                 | (Inr _, s') \<Rightarrow>
                     (case self_flac s' of
                        Inl e \<Rightarrow> (Inl e, s')
                      | Inr f \<Rightarrow>
                          flac_save (s'\<lparr>flac := f\<lparr>pictures := pictures f @ [cover]\<rparr>\<rparr>)
                            (flac_filename s'))))
      else (Inl (WrongPictureFormatError (supported_extensions_message @ ''.'')), s))"

text \<open>
  \<^verbatim>\<open>FLACTrack.export_cover\<close> (flac.py, lines 136 to 147). The line printed to standard
  output is not part of the state.
\<close>

definition export_cover :: "state \<Rightarrow> path option \<Rightarrow> path option outcome" where
  "export_cover s path =
     (case self_flac s of
        Inl e \<Rightarrow> (Inl e, s)
      | Inr f \<Rightarrow>
          (if pictures f = [] then (Inr None, s)
           else
             (let sfx = (if mime (hd (pictures f)) = ''image/png'' then ''png'' else ''jpg'')
              in case self_path s of
                   Inl e \<Rightarrow> (Inl e, s)
                 | Inr sp \<Rightarrow>
                     (let dest = (case path of
                                    None \<Rightarrow> joinpath (parent sp) (''cover.'' @ sfx)
                                  | Some p \<Rightarrow> p)
                      in (Inr (Some dest),
                          s\<lparr>files := (files s)(dest \<mapsto> data (hd (pictures f)))\<rparr>)))))"

text \<open>
  \<^verbatim>\<open>FLACTrack.__init__\<close> (flac.py, lines 51 to 56), on a disk with the ordinary files
  \<open>fs\<close> and the audio files \<open>au\<close>.
\<close>

definition init :: "(path \<rightharpoonup> content) \<Rightarrow> (path \<rightharpoonup> flac_data) \<Rightarrow> path \<Rightarrow> error + state" where
  "init fs au p =
     (case au p of
        None \<Rightarrow> Inl MutagenError
      | Some f \<Rightarrow>
          (let s = \<lparr>slots = [''path'' \<mapsto> PPath p, ''flac'' \<mapsto> PFlac], flac = f,
                    flac_filename = p, files = fs, audio = au\<rparr>
           in case read s of
                (Inl e, _) \<Rightarrow> Inl e
              | (Inr _, s') \<Rightarrow>
                  (case read_cover s' of
                     (Inl e, _) \<Rightarrow> Inl e
                   | (Inr _, s'') \<Rightarrow> Inr s'')))"

section \<open>Python floats\<close>

text \<open>
  A Python \<^verbatim>\<open>float\<close> is an IEEE 754 binary64 number; it is represented by the rational
  it denotes, and each operation rounds the exact result to the nearest number with a
  53-bit significand, ties to even. (Magnitudes stay inside the normal range: the
  operands below are image dimensions and their quotients.)
\<close>

text \<open>\<^verbatim>\<open>int.bit_length\<close>, for a positive int.\<close>

function bit_length :: "int \<Rightarrow> nat" where
  "bit_length n = (if n \<le> 0 then 0 else Suc (bit_length (n div 2)))"
  by pat_completeness auto
termination
  by (relation "measure nat") auto

declare bit_length.simps [simp del]

text \<open>The exponent of \<open>2\<close> in a positive rational: the floor of its binary logarithm.\<close>

definition ilog2 :: "rat \<Rightarrow> int" where
  "ilog2 q =
     (let (a, b) = quotient_of q;
          k = int (bit_length a) - int (bit_length b)
      in if power_int 2 k \<le> q then k else k - 1)"

definition round_half_even :: "rat \<Rightarrow> int" where
  "round_half_even q =
     (let f = \<lfloor>q\<rfloor>; r = q - of_int f
      in if r < 1 / 2 then f else if 1 / 2 < r then f + 1 else if even f then f else f + 1)"

definition fl :: "rat \<Rightarrow> rat" where
  "fl q =
     (if q = 0 then 0
      else (let e = ilog2 \<bar>q\<bar> - 52
            in sgn q * of_int (round_half_even (\<bar>q\<bar> / power_int 2 e)) * power_int 2 e))"

text \<open>\<^verbatim>\<open>a / b\<close> on two ints, on floats (an int operand is converted first), and \<^verbatim>\<open>a * b\<close>,
  \<^verbatim>\<open>a - b\<close> on floats.\<close>

definition int_truediv :: "int \<Rightarrow> int \<Rightarrow> rat" where
  "int_truediv a b = fl (of_int a / of_int b)"

definition float_of_int :: "int \<Rightarrow> rat" where
  "float_of_int n = fl (of_int n)"

definition float_truediv :: "rat \<Rightarrow> rat \<Rightarrow> rat" where
  "float_truediv x y = fl (x / y)"

definition float_mul :: "rat \<Rightarrow> rat \<Rightarrow> rat" where
  "float_mul x y = fl (x * y)"

definition float_sub :: "rat \<Rightarrow> rat \<Rightarrow> rat" where
  "float_sub x y = fl (x - y)"

text \<open>\<^verbatim>\<open>int(x)\<close> on a float: truncation towards zero.\<close>

definition py_int :: "rat \<Rightarrow> int" where
  "py_int x = (if 0 \<le> x then \<lfloor>x\<rfloor> else \<lceil>x\<rceil>)"

section \<open>Image.thumbnail\<close>

text \<open>
  \<^verbatim>\<open>Image.thumbnail(size, resample)\<close> of Pillow, in the releases that have
  \<^verbatim>\<open>Image.Resampling\<close> (which the source names): the image is shrunk in place to fit
  inside the requested size with its aspect ratio kept, and is left as it is when that
  size already holds it. \<open>preserve_aspect_ratio\<close> and \<open>round_aspect\<close> are Pillow's
  helpers of these names, the latter being
  \<^verbatim>\<open>max(min(floor(number), ceil(number), key=key), 1)\<close>; the resampling itself needs
  both sides of the new size to be positive.
\<close>

definition round_aspect :: "rat \<Rightarrow> (int \<Rightarrow> rat) \<Rightarrow> int" where
  "round_aspect number key =
     max (let a = \<lfloor>number\<rfloor>; b = \<lceil>number\<rceil> in if key b < key a then b else a) 1"

definition preserve_aspect_ratio :: "image \<Rightarrow> int \<times> int \<Rightarrow> error + (int \<times> int) option" where
  "preserve_aspect_ratio im box =
     (let (x, y) = box in
      if int (width im) \<le> x \<and> int (height im) \<le> y then Inr None
      else if height im = 0 then Inl ZeroDivisionError
      else
        (let aspect = int_truediv (int (width im)) (int (height im)) in
         if y = 0 then Inl ZeroDivisionError
         else if aspect \<le> int_truediv x y then
           Inr (Some (round_aspect (float_mul (float_of_int y) aspect)
                        (\<lambda>n. \<bar>float_sub aspect (int_truediv n y)\<bar>), y))
         else if aspect = 0 then Inl ZeroDivisionError
         else
           Inr (Some (x, round_aspect (float_truediv (float_of_int x) aspect)
                           (\<lambda>n. if n = 0 then 0 else \<bar>float_sub aspect (int_truediv x n)\<bar>)))))"

definition thumbnail :: "image \<Rightarrow> int \<times> int \<Rightarrow> error + image" where
  "thumbnail im box =
     (case preserve_aspect_ratio im box of
        Inl e \<Rightarrow> Inl e
      | Inr None \<Rightarrow> Inr im
      | Inr (Some (x, y)) \<Rightarrow>
          (if (int (width im), int (height im)) \<noteq> (x, y) then
             (if 0 < x \<and> 0 < y then Inr (im\<lparr>width := nat x, height := nat y\<rparr>)
              else Inl ValueError)
           else Inr im))"

section \<open>resize_cover\<close>

text \<open>\<^verbatim>\<open>str.lower\<close> on ASCII letters and \<^verbatim>\<open>str.replace("e", "")\<close>.\<close>

definition lower_char :: "char \<Rightarrow> char" where
  "lower_char c =
     (if (65::nat) \<le> of_char c \<and> of_char c \<le> (90::nat) then char_of (of_char c + (32::nat)) else c)"

definition lower_replace_e :: "string \<Rightarrow> string" where
  "lower_replace_e ext = filter (\<lambda>c. c \<noteq> CHR ''e'') (map lower_char ext)"

text \<open>
  \<^verbatim>\<open>FLACTrack.resize_cover\<close> (flac.py, lines 104 to 134). The image returned by
  \<^verbatim>\<open>read_cover\<close> is the object in the \<^verbatim>\<open>cover\<close> slot, so what \<^verbatim>\<open>getexif\<close> and
  \<^verbatim>\<open>thumbnail\<close> change in place shows in that slot.
\<close>

text \<open>\<^verbatim>\<open>exif[tag] = value\<close> on the Exif table.\<close>

fun exif_set :: "(nat \<times> string) list \<Rightarrow> nat \<Rightarrow> string \<Rightarrow> (nat \<times> string) list" where
  "exif_set [] tag v = [(tag, v)]"
| "exif_set ((t, x) # rest) tag v =
     (if t = tag then (t, v) # rest else (t, x) # exif_set rest tag v)"

definition resize_cover :: "state \<Rightarrow> int \<Rightarrow> string option \<Rightarrow> unit outcome" where
  "resize_cover s w extension =
     (if extension \<notin> {None, Some ''jpg'', Some ''jpeg'', Some ''png''} then
        (Inl (WrongPictureFormatError (supported_extensions_message @ '' or None.'')), s)
      else
        (case read_cover s of
           (Inl e, s1) \<Rightarrow> (Inl e, s1)
         | (Inr None, s1) \<Rightarrow> (Inl (NoCoverFoundError ''No cover found to resize''), s1)
         | (Inr (Some image0), s1) \<Rightarrow>
             (let exif1 = exif_set (exif_set (exif image0) 305 ''Chemz v. 0.1.0'')
                             315 ''Blinzy a.k.a L4zzur'';
                  image1 = image0\<lparr>exif := exif1\<rparr>;
                  s2 = s1\<lparr>slots := (slots s1)(''cover'' \<mapsto> PImage image1)\<rparr>;
                  (sfx, image_format) =
                     (case extension of
                        Some ext \<Rightarrow>
                          (let sfx = lower_replace_e ext
                           in (sfx, if sfx = ''png'' then ''PNG'' else ''JPEG''))
                      | None \<Rightarrow>
                          (if format image1 = ''PNG'' then ''png'' else ''jpg'', format image1))
              in if height image1 = 0 then (Inl ZeroDivisionError, s2)
                 else
                   (let aspect_ratio = int_truediv (int (width image1)) (int (height image1))
                    in if aspect_ratio = 0 then (Inl ZeroDivisionError, s2)
                       else
                         (let h = py_int (float_truediv (float_of_int w) aspect_ratio)
                          in case thumbnail image1 (w, h) of
                               Inl e \<Rightarrow> (Inl e, s2)
                             | Inr image2 \<Rightarrow>
                                 (let s3 = s2\<lparr>slots := (slots s2)(''cover'' \<mapsto> PImage image2)\<rparr>
                                  in case self_path s3 of
                                       Inl e \<Rightarrow> (Inl e, s3)
                                     | Inr sp \<Rightarrow>
                                         (let temp_path = joinpath (parent sp) (''temp_cover.'' @ sfx);
                                              s4 = s3\<lparr>files := (files s3)(temp_path \<mapsto>
                                                     Encoded (image2\<lparr>format := image_format,
                                                                    exif := exif1\<rparr>))\<rparr>
                                          in case add_cover s4 temp_path of
                                               (Inl e, s5) \<Rightarrow> (Inl e, s5)
                                             | (Inr _, s5) \<Rightarrow>
                                                 (case files s5 temp_path of
                                                    None \<Rightarrow> (Inl FileNotFoundError, s5)
                                                  | Some _ \<Rightarrow>
                                                      (Inr (),
                                                       s5\<lparr>files := (files s5)(temp_path := None)\<rparr>)))))))))"

section \<open>Notions used in the statements\<close>

text \<open>
  A key that \<^verbatim>\<open>import_from_dict\<close> accepts: the name of a canonical attribute or of an
  adapter-internal field whose slot holds a value.
\<close>

definition recognized :: "state \<Rightarrow> string \<Rightarrow> bool" where
  "recognized s k = ((k \<in> set canonical \<or> k \<in> set internal_fields) \<and> slots s k \<noteq> None)"





text \<open>The picture \<^verbatim>\<open>add_cover\<close> builds from the file at \<open>p\<close> with the bytes \<open>bytes\<close>.\<close>

definition cover_of :: "path \<Rightarrow> content \<Rightarrow> picture" where
  "cover_of p bytes =
     \<lparr>data = bytes, mime = (if suffix p = ''.png'' then ''image/png'' else ''image/jpeg'')\<rparr>"




definition requested_height :: "image \<Rightarrow> int \<Rightarrow> int" where
  "requested_height img w =
     py_int (float_truediv (float_of_int w)
               (int_truediv (int (width img)) (int (height img))))"

text \<open>The pixel size of a stored picture, when its data decodes.\<close>

definition picture_size :: "picture \<Rightarrow> (nat \<times> nat) option" where
  "picture_size p = (case data p of Encoded img \<Rightarrow> Some (width img, height img) | Raw _ \<Rightarrow> None)"

section \<open>Example tracks\<close>

text \<open>
  A track as \<^verbatim>\<open>__init__\<close> leaves it, for a FLAC file at \<open>demo_path\<close> whose tag store is
  \<open>f\<close>: \<open>demo_track\<close> carries a 1200 by 800 JPEG cover, \<open>bare_track\<close> carries none.
\<close>

definition demo_path :: path where
  "demo_path = [''music'', ''album'', ''song.flac'']"

definition demo_cover :: image where
  "demo_cover = \<lparr>width = 1200, height = 800, format = ''JPEG'', exif = []\<rparr>"

definition demo_store :: flac_data where
  "demo_store =
     \<lparr>tags = [''title'' \<mapsto> [PStr ''Song''], ''artist'' \<mapsto> [PStr ''Band'', PStr ''Guest'']],
      pictures = [\<lparr>data = Encoded demo_cover, mime = ''image/jpeg''\<rparr>]\<rparr>"

definition loaded :: "flac_data \<Rightarrow> state" where
  "loaded f =
     snd (read_cover (snd (read
       \<lparr>slots = [''path'' \<mapsto> PPath demo_path, ''flac'' \<mapsto> PFlac], flac = f,
        flac_filename = demo_path, files = Map.empty, audio = [demo_path \<mapsto> f]\<rparr>)))"

definition demo_track :: state where
  "demo_track = loaded demo_store"

definition bare_track :: state where
  "bare_track = loaded (demo_store\<lparr>pictures := []\<rparr>)"

text \<open>A track with a PNG cover, and a disk that also holds two image files.\<close>

definition png_track :: state where
  "png_track =
     loaded (demo_store\<lparr>pictures :=
       [\<lparr>data = Encoded (demo_cover\<lparr>format := ''PNG''\<rparr>), mime = ''image/png''\<rparr>]\<rparr>)"

definition art_png :: path where
  "art_png = [''art'', ''front.png'']"

definition art_gif :: path where
  "art_gif = [''art'', ''front.gif'']"

definition art_track :: state where
  "art_track =
     demo_track\<lparr>files := [art_png \<mapsto> Raw [137, 80, 78, 71], art_gif \<mapsto> Raw [71, 73, 70]]\<rparr>"


definition wide_track :: state where
  "wide_track =
     loaded (demo_store\<lparr>pictures :=
       [\<lparr>data = Encoded (demo_cover\<lparr>width := 1100, height := 500\<rparr>), mime = ''image/jpeg''\<rparr>]\<rparr>)"


section \<open>Facts about the schema\<close>

lemma canonical_names:
  "canonical =
    [''album'', ''albumartist'', ''artist'', ''bpm'', ''comment'', ''composer'',
     ''conductor'', ''contentgroup'', ''copyright'', ''disc'', ''encodedby'',
     ''genre'', ''initialkey'', ''isrc'', ''lyricist'', ''lyrics'', ''origartist'',
     ''publisher'', ''remixedby'', ''subtitle'', ''title'', ''totaldiscs'',
     ''totaltracks'', ''track'', ''www'', ''year'']"
  by (simp add: canonical_def attrs_def)


lemma slots_split: "set FLACTrack_slots = set canonical \<union> set internal_fields"
  unfolding FLACTrack_slots_def Track_slots_def canonical_names internal_fields_def
  by auto

lemma attrs_keys_slots: "set (map fst attrs) \<subseteq> set FLACTrack_slots"
  using slots_split by (auto simp: canonical_def)

lemma hook_slot: "name \<in> set FLACTrack_slots \<Longrightarrow> isl (getattr_hook name)"
  unfolding FLACTrack_slots_def Track_slots_def getattr_hook_def
  by auto

lemma self_flac_ok: "slots s ''flac'' = Some PFlac \<Longrightarrow> self_flac s = Inr (flac s)"
  by (simp add: self_flac_def)

lemma self_path_ok: "slots s ''path'' = Some (PPath p) \<Longrightarrow> self_path s = Inr p"
  by (simp add: self_path_def)

section \<open>The example tracks are what the constructor yields\<close>

lemma init_result:
  assumes "fst (read \<lparr>slots = [''path'' \<mapsto> PPath demo_path, ''flac'' \<mapsto> PFlac], flac = f,
                     flac_filename = demo_path, files = Map.empty, audio = [demo_path \<mapsto> f]\<rparr>) = Inr ()"
    and "\<not> isl (fst (read_cover (snd (read \<lparr>slots = [''path'' \<mapsto> PPath demo_path, ''flac'' \<mapsto> PFlac], flac = f,
                     flac_filename = demo_path, files = Map.empty, audio = [demo_path \<mapsto> f]\<rparr>))))"
  shows "init Map.empty [demo_path \<mapsto> f] demo_path = Inr (loaded f)"
  using assms
  by (auto simp: init_def loaded_def Let_def split: prod.splits sum.splits)

lemma demo_track_init: "init Map.empty [demo_path \<mapsto> demo_store] demo_path = Inr demo_track"
  unfolding demo_track_def by (rule init_result; code_simp)

lemma bare_track_init:
  "init Map.empty [demo_path \<mapsto> demo_store\<lparr>pictures := []\<rparr>] demo_path = Inr bare_track"
  unfolding bare_track_def by (rule init_result; code_simp)

section \<open>delete_tag\<close>

text \<open>A string is never a member of the view of (key, value) tuples.\<close>

lemma attrs_items_no_str: "PStr tag \<notin> set attrs_items"
  by (auto simp: attrs_items_def)

lemma delete_tag_raises: "delete_tag s tag = (Inl WrongFLACAttributeError, s)"
  by (simp add: delete_tag_def attrs_items_no_str)

text \<open>
  Claim C1. \<^verbatim>\<open>delete_tag(n)\<close> is to remove the native tag of a canonical attribute name
  \<open>n\<close> and to fail only for a name outside the attribute map. In the code the membership
  test is against \<^verbatim>\<open>attrs.items()\<close>, so it fails for every string: here for the canonical
  name \<open>title\<close>, on any track, whose tag store holds a \<open>title\<close> tag; the tag is still there
  afterwards.
\<close>

theorem delete_tag_title_raises:
  "''title'' \<in> set canonical \<and> map_of attrs ''title'' = Some ''title'' \<and>
   delete_tag s ''title'' = (Inl WrongFLACAttributeError, s) \<and>
   tags (flac (snd (delete_tag demo_track ''title''))) ''title'' = Some [PStr ''Song'']"
proof -
  have "tags (flac demo_track) ''title'' = Some [PStr ''Song'']"
    by code_simp
  then show ?thesis
    by (simp add: delete_tag_raises canonical_names attrs_def)
qed

section \<open>Attribute assignment\<close>

lemma setattr_cases:
  "setattr s n v =
     (if n \<in> set canonical \<union> set internal_fields
      then (Inr (), s\<lparr>slots := (slots s)(n \<mapsto> v)\<rparr>)
      else (Inl (AttributeError (''Cannot set unknown attribute '' @ quoted n)), s))"
  using attrs_keys_slots slots_split by (auto simp: setattr_def)

text \<open>
  Claim C3. Assigning \<open>v\<close> to the attribute \<open>n\<close> of a \<^verbatim>\<open>FLACTrack\<close> stores \<open>v\<close> in the slot
  \<open>n\<close> when \<open>n\<close> is a canonical attribute or one of the adapter-internal fields \<open>path\<close>,
  \<open>cover\<close>, \<open>flac\<close>; for any other \<open>n\<close> it raises an \<^verbatim>\<open>AttributeError\<close> whose message
  quotes \<open>n\<close>, and the track is left as it was: no field is created.
\<close>

theorem setattr_allow_list:
  "setattr s n v =
     (if n \<in> set canonical \<or> n \<in> {''path'', ''cover'', ''flac''}
      then (Inr (), s\<lparr>slots := (slots s)(n \<mapsto> v)\<rparr>)
      else (Inl (AttributeError (''Cannot set unknown attribute '' @ quoted n)), s))"
  by (simp add: setattr_cases internal_fields_def)

theorem setattr_allow_list_witness:
  "setattr demo_track ''title'' (PStr ''New'') =
     (Inr (), demo_track\<lparr>slots := (slots demo_track)(''title'' \<mapsto> PStr ''New'')\<rparr>) \<and>
   setattr demo_track ''flac'' PNone =
     (Inr (), demo_track\<lparr>slots := (slots demo_track)(''flac'' \<mapsto> PNone)\<rparr>) \<and>
   setattr demo_track ''rating'' (PInt 5) =
     (Inl (AttributeError (''Cannot set unknown attribute '' @ quoted ''rating'')), demo_track)"
  using setattr_allow_list [of demo_track "''title''" "PStr ''New''"]
    setattr_allow_list [of demo_track "''flac''" PNone]
    setattr_allow_list [of demo_track "''rating''" "PInt 5"]
  by (simp add: canonical_names)

section \<open>import_from_dict\<close>

lemma import_step_ok:
  "recognized s k \<Longrightarrow>
     hasattr cls s k \<and> setattr s k v = (Inr (), s\<lparr>slots := (slots s)(k \<mapsto> v)\<rparr>)"
  using slots_split by (auto simp: recognized_def hasattr_def setattr_cases)

lemma import_all_recognized:
  "list_all (recognized s) (map fst kvs) \<Longrightarrow>
     import_from_dict cls s kvs = (Inr (), s\<lparr>slots := slots s ++ map_of (rev kvs)\<rparr>)"
proof (induction kvs arbitrary: s)
  case Nil
  then show ?case by simp
next
  case (Cons kv kvs)
  obtain k v where kv: "kv = (k, v)" by (cases kv)
  let ?s1 = "s\<lparr>slots := (slots s)(k \<mapsto> v)\<rparr>"
  from Cons.prems kv have rk: "recognized s k" and rest: "list_all (recognized s) (map fst kvs)"
    by simp_all
  have "list_all (recognized ?s1) (map fst kvs)"
    using rest by (induction kvs) (auto simp: recognized_def)
  from Cons.IH[OF this] have
    "import_from_dict cls ?s1 kvs = (Inr (), ?s1\<lparr>slots := slots ?s1 ++ map_of (rev kvs)\<rparr>)" .
  moreover have "slots ?s1 ++ map_of (rev kvs) = slots s ++ map_of (rev (kv # kvs))"
    by (simp add: kv map_add_def fun_eq_iff split: option.splits)
  ultimately show ?case
    using import_step_ok[OF rk, of cls v] by (simp add: kv)
qed

lemma import_step_fail:
  assumes "\<not> recognized s k"
  shows "\<exists>msg. import_from_dict cls s ((k, v) # post) = (Inl (AttributeError msg), s) \<and>
           msg \<in> {''Attribute '' @ k @ '' not found in Track class'',
                  ''Cannot set unknown attribute '' @ quoted k}"
proof (cases "k \<in> set FLACTrack_slots")
  case True
  with assms have "slots s k = None" using slots_split by (auto simp: recognized_def)
  with True hook_slot[OF True] have "\<not> hasattr cls s k" by (simp add: hasattr_def)
  then show ?thesis by simp
next
  case False
  then have "setattr s k v = (Inl (AttributeError (''Cannot set unknown attribute '' @ quoted k)), s)"
    using slots_split by (simp add: setattr_cases)
  then show ?thesis by (cases "hasattr cls s k") simp_all
qed

lemma import_append:
  "import_from_dict cls s xs = (Inr (), s') \<Longrightarrow>
     import_from_dict cls s (xs @ ys) = import_from_dict cls s' ys"
  by (induction xs arbitrary: s) (auto split: if_splits prod.splits sum.splits)

text \<open>
  Claim C2, as stated, fails: the key \<open>flac\<close> is no canonical attribute (it is not even
  a slot of \<^verbatim>\<open>Track\<close>), yet \<^verbatim>\<open>import_from_dict({"flac": "x"})\<close> on a loaded track returns
  normally and overwrites the slot that holds the tag store.
\<close>

theorem import_from_dict_flac_accepted:
  "''flac'' \<notin> set canonical \<and> ''flac'' \<notin> set Track_slots \<and>
   fst (import_from_dict [] demo_track [(''flac'', PStr ''x'')]) = Inr () \<and>
   slots (snd (import_from_dict [] demo_track [(''flac'', PStr ''x'')])) ''flac'' = Some (PStr ''x'')"
  by code_simp

text \<open>
  Claim C2, amended. \<^verbatim>\<open>import_from_dict\<close> processes the keys in iteration order. A key is
  accepted when it names a canonical attribute or an adapter-internal field (\<open>path\<close>,
  \<open>cover\<close>, \<open>flac\<close>) whose slot holds a value. When every key of \<open>pre\<close> is accepted and
  \<open>k\<close> is not, the import of \<open>pre\<close> alone returns normally with every key of \<open>pre\<close> set to
  its value, and the import of \<open>pre\<close> followed by \<open>k\<close> (and anything after it) raises an
  \<^verbatim>\<open>AttributeError\<close> whose message names \<open>k\<close>; the state it leaves has the keys of \<open>pre\<close>
  set (not transactional), the slot \<open>k\<close> as it was before, and nothing after \<open>k\<close> applied.
\<close>

theorem import_from_dict_first_unknown:
  assumes "list_all (recognized s) (map fst pre)" and "\<not> recognized s k"
  shows "import_from_dict cls s pre = (Inr (), s\<lparr>slots := slots s ++ map_of (rev pre)\<rparr>) \<and>
         (\<exists>msg. import_from_dict cls s (pre @ (k, v) # post) =
                  (Inl (AttributeError msg), s\<lparr>slots := slots s ++ map_of (rev pre)\<rparr>) \<and>
                msg \<in> {''Attribute '' @ k @ '' not found in Track class'',
                       ''Cannot set unknown attribute '' @ quoted k}) \<and>
         (slots s ++ map_of (rev pre)) k = slots s k"
proof -
  let ?s1 = "s\<lparr>slots := slots s ++ map_of (rev pre)\<rparr>"
  have ok: "import_from_dict cls s pre = (Inr (), ?s1)"
    by (rule import_all_recognized[OF assms(1)])
  have notin: "k \<notin> fst ` set pre"
    using assms by (auto simp: list_all_iff)
  then have same: "(slots s ++ map_of (rev pre)) k = slots s k"
    by (simp add: map_add_def map_of_eq_None_iff[THEN iffD2])
  then have "\<not> recognized ?s1 k"
    using assms(2) by (simp add: recognized_def)
  from import_step_fail[OF this, of cls v post] import_append[OF ok, of "(k, v) # post"] ok same
  show ?thesis by simp
qed

theorem import_from_dict_first_unknown_witness:
  "list_all (recognized demo_track) (map fst [(''title'', PStr ''A''), (''year'', PStr ''1999'')]) \<and>
   \<not> recognized demo_track ''rating'' \<and>
   (\<exists>msg. import_from_dict []  demo_track
             ([(''title'', PStr ''A''), (''year'', PStr ''1999'')] @
              (''rating'', PInt 5) # [(''album'', PStr ''B'')]) =
            (Inl (AttributeError msg),
             demo_track\<lparr>slots := slots demo_track ++
                map_of (rev [(''title'', PStr ''A''), (''year'', PStr ''1999'')])\<rparr>) \<and>
          msg \<in> {''Attribute '' @ ''rating'' @ '' not found in Track class'',
                 ''Cannot set unknown attribute '' @ quoted ''rating''})"
proof -
  have h1: "list_all (recognized demo_track)
              (map fst [(''title'', PStr ''A''), (''year'', PStr ''1999'')])"
    by code_simp
  have h2: "\<not> recognized demo_track ''rating''"
    by code_simp
  from import_from_dict_first_unknown [OF h1 h2, of "[]" "PInt 5" "[(''album'', PStr ''B'')]"] h1 h2
  show ?thesis by blast
qed


section \<open>save followed by read\<close>









section \<open>Cover operations\<close>

lemma remove_cover_ok:
  assumes "slots s ''flac'' = Some PFlac" and "audio s (flac_filename s) \<noteq> None"
  shows "remove_cover s =
    (Inr (), s\<lparr>flac := (flac s)\<lparr>pictures := []\<rparr>,
               audio := (audio s)(flac_filename s \<mapsto> (flac s)\<lparr>pictures := []\<rparr>)\<rparr>)"
  using assms by (auto simp: remove_cover_def self_flac_ok flac_save_def split: option.splits)


lemma add_cover_ok:
  assumes "slots s ''flac'' = Some PFlac" and "audio s (flac_filename s) \<noteq> None"
    and "suffix p \<in> {''.jpg'', ''.jpeg'', ''.png''}" and "files s p = Some bytes"
  shows "add_cover s p =
    (Inr (), s\<lparr>flac := (flac s)\<lparr>pictures := [cover_of p bytes]\<rparr>,
               audio := (audio s)(flac_filename s \<mapsto> (flac s)\<lparr>pictures := [cover_of p bytes]\<rparr>)\<rparr>)"
proof -
  let ?s1 = "s\<lparr>flac := (flac s)\<lparr>pictures := []\<rparr>,
               audio := (audio s)(flac_filename s \<mapsto> (flac s)\<lparr>pictures := []\<rparr>)\<rparr>"
  have f1: "self_flac ?s1 = Inr (flac ?s1)" using assms(1) by (simp add: self_flac_def)
  show ?thesis
    using assms(3,4) remove_cover_ok[OF assms(1,2)] f1
    by (auto simp: add_cover_def Let_def flac_save_def cover_of_def)
qed


lemma add_cover_bad_suffix:
  assumes "suffix p \<notin> {''.jpg'', ''.jpeg'', ''.png''}"
  shows "add_cover s p = (Inl (WrongPictureFormatError (supported_extensions_message @ ''.'')), s)"
  using assms by (simp add: add_cover_def)

text \<open>
  Claim C7. For a path whose suffix is none of \<open>.jpg\<close>, \<open>.jpeg\<close>, \<open>.png\<close>, \<^verbatim>\<open>add_cover\<close>
  raises \<^verbatim>\<open>WrongPictureFormatError\<close> and changes nothing, the picture list included. For a
  path with one of these suffixes that names a file with the bytes \<open>bytes\<close>, on a track
  whose tag store is writable (the \<open>flac\<close> slot holds it and its audio file is on disk),
  \<^verbatim>\<open>add_cover\<close> returns normally; afterwards the picture list is exactly one picture
  with the data \<open>bytes\<close> and the mime type \<open>image/png\<close> for \<open>.png\<close>, \<open>image/jpeg\<close>
  otherwise (whatever cover there was is gone), the tags are unchanged, and the audio
  file on disk holds the new tag store.
\<close>

theorem add_cover_spec:
  "(suffix p \<notin> {''.jpg'', ''.jpeg'', ''.png''} \<longrightarrow>
      (\<exists>msg. add_cover s p = (Inl (WrongPictureFormatError msg), s))) \<and>
   (suffix p \<in> {''.jpg'', ''.jpeg'', ''.png''} \<and> files s p = Some bytes \<and>
    slots s ''flac'' = Some PFlac \<and> audio s (flac_filename s) \<noteq> None \<longrightarrow>
      (\<exists>s'. add_cover s p = (Inr (), s') \<and>
            pictures (flac s') =
              [\<lparr>data = bytes,
                mime = (if suffix p = ''.png'' then ''image/png'' else ''image/jpeg'')\<rparr>] \<and>
            tags (flac s') = tags (flac s) \<and>
            audio s' (flac_filename s') = Some (flac s') \<and>
            slots s' = slots s \<and> files s' = files s))"
proof (intro conjI impI)
  assume "suffix p \<notin> {''.jpg'', ''.jpeg'', ''.png''}"
  from add_cover_bad_suffix[OF this]
  show "\<exists>msg. add_cover s p = (Inl (WrongPictureFormatError msg), s)" by blast
next
  assume h: "suffix p \<in> {''.jpg'', ''.jpeg'', ''.png''} \<and> files s p = Some bytes \<and>
    slots s ''flac'' = Some PFlac \<and> audio s (flac_filename s) \<noteq> None"
  then have "add_cover s p =
    (Inr (), s\<lparr>flac := (flac s)\<lparr>pictures := [cover_of p bytes]\<rparr>,
               audio := (audio s)(flac_filename s \<mapsto> (flac s)\<lparr>pictures := [cover_of p bytes]\<rparr>)\<rparr>)"
    by (intro add_cover_ok) simp_all
  then show "\<exists>s'. add_cover s p = (Inr (), s') \<and>
            pictures (flac s') =
              [\<lparr>data = bytes,
                mime = (if suffix p = ''.png'' then ''image/png'' else ''image/jpeg'')\<rparr>] \<and>
            tags (flac s') = tags (flac s) \<and>
            audio s' (flac_filename s') = Some (flac s') \<and>
            slots s' = slots s \<and> files s' = files s"
    by (simp add: cover_of_def)
qed

theorem add_cover_spec_witness:
  "suffix art_gif \<notin> {''.jpg'', ''.jpeg'', ''.png''} \<and>
   (\<exists>msg. add_cover art_track art_gif = (Inl (WrongPictureFormatError msg), art_track)) \<and>
   suffix art_png \<in> {''.jpg'', ''.jpeg'', ''.png''} \<and>
   files art_track art_png = Some (Raw [137, 80, 78, 71]) \<and>
   slots art_track ''flac'' = Some PFlac \<and>
   audio art_track (flac_filename art_track) \<noteq> None \<and>
   (\<exists>s'. add_cover art_track art_png = (Inr (), s') \<and>
         pictures (flac s') = [\<lparr>data = Raw [137, 80, 78, 71], mime = ''image/png''\<rparr>] \<and>
         audio s' (flac_filename s') = Some (flac s'))"
proof -
  have g: "suffix art_gif \<notin> {''.jpg'', ''.jpeg'', ''.png''}" by code_simp
  have p: "suffix art_png \<in> {''.jpg'', ''.jpeg'', ''.png''}" "suffix art_png = ''.png''"
    by code_simp+
  have f: "files art_track art_png = Some (Raw [137, 80, 78, 71])" by code_simp
  have h1: "slots art_track ''flac'' = Some PFlac" by code_simp
  have h2: "audio art_track (flac_filename art_track) \<noteq> None" by code_simp
  from add_cover_spec [of art_gif art_track] g
  have a: "\<exists>msg. add_cover art_track art_gif = (Inl (WrongPictureFormatError msg), art_track)"
    by blast
  from add_cover_spec [of art_png art_track "Raw [137, 80, 78, 71]"] p f h1 h2
  have b: "\<exists>s'. add_cover art_track art_png = (Inr (), s') \<and>
         pictures (flac s') = [\<lparr>data = Raw [137, 80, 78, 71], mime = ''image/png''\<rparr>] \<and>
         audio s' (flac_filename s') = Some (flac s')"
    by auto
  from g a p(1) f h1 h2 b show ?thesis by blast
qed

text \<open>
  Claim C8. On a loaded track (the \<open>flac\<close> and \<open>path\<close> slots hold the tag store and the
  track's path), \<^verbatim>\<open>export_cover\<close> returns \<open>None\<close> and changes nothing when the picture
  list is empty. Otherwise it writes the data of the first picture, as it is, to the
  given path, or with no path given to \<open>cover.png\<close> in the track's directory when that
  picture's mime type is \<open>image/png\<close> and to \<open>cover.jpg\<close> there otherwise, and returns
  the path written.
\<close>

theorem export_cover_spec:
  assumes "slots s ''flac'' = Some PFlac" and "slots s ''path'' = Some (PPath sp)"
  shows "export_cover s dest =
     (if pictures (flac s) = [] then (Inr None, s)
      else (let target = (case dest of
                            None \<Rightarrow> parent sp @ [if mime (hd (pictures (flac s))) = ''image/png''
                                                  then ''cover.png'' else ''cover.jpg'']
                          | Some d \<Rightarrow> d)
            in (Inr (Some target),
                s\<lparr>files := (files s)(target \<mapsto> data (hd (pictures (flac s))))\<rparr>)))"
  using assms
  by (auto simp: export_cover_def self_flac_ok self_path_ok Let_def joinpath_def
      split: option.splits)

theorem export_cover_spec_witness:
  "slots png_track ''flac'' = Some PFlac \<and> slots png_track ''path'' = Some (PPath demo_path) \<and>
   slots bare_track ''flac'' = Some PFlac \<and> slots bare_track ''path'' = Some (PPath demo_path) \<and>
   export_cover bare_track None = (Inr None, bare_track) \<and>
   export_cover png_track None =
     (Inr (Some [''music'', ''album'', ''cover.png'']),
      png_track\<lparr>files := (files png_track)([''music'', ''album'', ''cover.png''] \<mapsto>
                   Encoded (demo_cover\<lparr>format := ''PNG''\<rparr>))\<rparr>)"
proof -
  have h1: "slots png_track ''flac'' = Some PFlac" by code_simp
  have h2: "slots png_track ''path'' = Some (PPath demo_path)" by code_simp
  have h3: "slots bare_track ''flac'' = Some PFlac" by code_simp
  have h4: "slots bare_track ''path'' = Some (PPath demo_path)" by code_simp
  have p1: "pictures (flac bare_track) = []" by code_simp
  have p2: "pictures (flac png_track) =
              [\<lparr>data = Encoded (demo_cover\<lparr>format := ''PNG''\<rparr>), mime = ''image/png''\<rparr>]"
    by code_simp
  from export_cover_spec [OF h3 h4, of None] p1
  have a: "export_cover bare_track None = (Inr None, bare_track)" by simp
  from export_cover_spec [OF h1 h2, of None] p2
  have b: "export_cover png_track None =
     (Inr (Some [''music'', ''album'', ''cover.png'']),
      png_track\<lparr>files := (files png_track)([''music'', ''album'', ''cover.png''] \<mapsto>
                   Encoded (demo_cover\<lparr>format := ''PNG''\<rparr>))\<rparr>)"
    by (simp add: parent_def demo_path_def Let_def)
  from h1 h2 h3 h4 a b show ?thesis by blast
qed

section \<open>resize_cover\<close>

lemma read_cover_none:
  assumes "slots s ''flac'' = Some PFlac" and "pictures (flac s) = []"
  shows "read_cover s = (Inr None, s)"
  using assms by (simp add: read_cover_def self_flac_ok)

text \<open>
  Claim C9. On a track whose tag store has no pictures, \<^verbatim>\<open>resize_cover(width)\<close>, with the
  extension absent or one of \<open>jpg\<close>, \<open>jpeg\<close>, \<open>png\<close>, raises \<^verbatim>\<open>NoCoverFoundError\<close> for
  every width and leaves the whole state, the tag store included, as it was.
\<close>

theorem resize_cover_no_cover:
  assumes "slots s ''flac'' = Some PFlac" and "pictures (flac s) = []"
    and "extension \<in> {None, Some ''jpg'', Some ''jpeg'', Some ''png''}"
  shows "resize_cover s w extension = (Inl (NoCoverFoundError ''No cover found to resize''), s)"
  using assms(3) read_cover_none[OF assms(1,2)] by (auto simp: resize_cover_def)

theorem resize_cover_no_cover_witness:
  "slots bare_track ''flac'' = Some PFlac \<and> pictures (flac bare_track) = [] \<and>
   Some ''jpeg'' \<in> {None, Some ''jpg'', Some ''jpeg'', Some ''png''} \<and>
   resize_cover bare_track 300 (Some ''jpeg'') =
     (Inl (NoCoverFoundError ''No cover found to resize''), bare_track)"
proof -
  have h1: "slots bare_track ''flac'' = Some PFlac" by code_simp
  have h2: "pictures (flac bare_track) = []" by code_simp
  have h3: "Some ''jpeg'' \<in> {None, Some ''jpg'', Some ''jpeg'', Some ''png''}" by simp
  from resize_cover_no_cover [OF h1 h2 h3, of 300] h1 h2 h3 show ?thesis by blast
qed


section \<open>Rounding keeps a positive quotient positive\<close>






section \<open>The steps of resize_cover\<close>









section \<open>The size of the resized cover\<close>




section \<open>The temporary file of resize_cover\<close>




section \<open>Requesting the width the cover already has\<close>

text \<open>
  Claim C10. A requested width that is at least the original width is to leave the cover
  at its original size. For a 1100 by 500 cover and the requested width 1100 the source
  computes the height \<open>int(1100 / (1100 / 500))\<close>, which in float arithmetic is 499, so
  the box no longer holds the image and the stored cover is 1098 by 499.
\<close>

theorem resize_cover_same_width_shrinks:
  "map picture_size (pictures (flac wide_track)) = [Some (1100, 500)] \<and>
   requested_height (demo_cover\<lparr>width := 1100, height := 500\<rparr>) 1100 = 499 \<and>
   fst (resize_cover wide_track 1100 None) = Inr () \<and>
   map picture_size (pictures (flac (snd (resize_cover wide_track 1100 None)))) =
     [Some (1098, 499)]"
  by code_simp

end
